theory Spec2Isabelle
  imports Complex_Main "HOL-Library.AList"
begin

section \<open>The decoded document: JavaScript values\<close>

text \<open>
  \<open>WorkflowParser.parse\<close> hands the text to the YAML decoder and inspects the value that
  comes back with \<open>typeof\<close>, \<open>Array.isArray\<close>, truthiness tests and property reads.
  The decoded value is modelled as a tagged union.  A mapping is the list of its own
  enumerable properties in the order \<open>Object.keys\<close> / \<open>Object.entries\<close> enumerate them.
  \<open>JUndefined\<close> is what a read of an absent property yields (and what the decoder returns
  for an empty document).  The union covers what the decoder builds from YAML's null,
  boolean, number and string scalars, sequences and mappings; the objects it builds for
  tagged timestamps and binary data are left out.
\<close>

text \<open>A number is finite (both zeros are \<open>Finite 0\<close>), \<open>NaN\<close> or an infinity; the parser
  only tests numbers for truthiness.\<close>

datatype jsnum = Finite rat | NaN | PosInfinity | NegInfinity

datatype jsval =
    JUndefined
  | JNull
  | JBool bool
  | JNum jsnum
  | JStr string
  | JArr "jsval list"
  | JObj "(string \<times> jsval) list"

text \<open>What the code can throw: the engine's \<open>TypeError\<close>, the decoder's exception, and the
  plain \<open>Error\<close> objects that \<open>parseWorkflow\<close> creates.\<close>

datatype js_error = TypeError string | YAMLException string | Error string

text \<open>\<open>error instanceof Error ? error.message : String(error)\<close>: all three are \<open>Error\<close>
  instances.\<close>

fun error_message :: "js_error \<Rightarrow> string" where
  "error_message (TypeError m) = m"
| "error_message (YAMLException m) = m"
| "error_message (Error m) = m"

text \<open>JavaScript truthiness: \<open>!v\<close> is \<open>\<not> truthy v\<close>.\<close>

fun truthy :: "jsval \<Rightarrow> bool" where
  "truthy JUndefined = False"
| "truthy JNull = False"
| "truthy (JBool b) = b"
| "truthy (JNum n) = (n \<noteq> Finite 0 \<and> n \<noteq> NaN)"
| "truthy (JStr s) = (s \<noteq> [])"
| "truthy (JArr xs) = True"
| "truthy (JObj kvs) = True"

fun typeof :: "jsval \<Rightarrow> string" where
  "typeof JUndefined = ''undefined''"
| "typeof JNull = ''object''"
| "typeof (JBool b) = ''boolean''"
| "typeof (JNum n) = ''number''"
| "typeof (JStr s) = ''string''"
| "typeof (JArr xs) = ''object''"
| "typeof (JObj kvs) = ''object''"

fun isArray :: "jsval \<Rightarrow> bool" where
  "isArray (JArr xs) = True"
| "isArray v = False"

fun elems :: "jsval \<Rightarrow> jsval list" where
  "elems (JArr xs) = xs"
| "elems v = []"

definition nullish :: "jsval \<Rightarrow> bool" where
  "nullish v = (v = JUndefined \<or> v = JNull)"

text \<open>
  A property read \<open>v.k\<close> / \<open>v[k]\<close> on a receiver that is neither \<open>null\<close> nor \<open>undefined\<close>
  (on those the read throws, see \<open>read_error\<close>).  The parser reads only the fixed names
  \<open>on\<close>, \<open>jobs\<close>, \<open>name\<close>, \<open>env\<close>, \<open>defaults\<close>, \<open>concurrency\<close>, \<open>runs-on\<close>, \<open>steps\<close>,
  \<open>needs\<close>, \<open>strategy\<close>, \<open>if\<close>, \<open>permissions\<close>, \<open>timeout-minutes\<close>, \<open>matrix\<close>, \<open>fail-fast\<close>,
  \<open>max-parallel\<close>, \<open>id\<close>, \<open>uses\<close>, \<open>run\<close>, \<open>with\<close>, \<open>continue-on-error\<close>, \<open>branches\<close>,
  \<open>tags\<close>, \<open>paths\<close>, and, on a mapping only, that mapping's own keys.  None of the fixed
  names is an array index or \<open>length\<close>, and none is inherited by a string, a number or a
  boolean, so on a sequence or a scalar the read yields \<open>undefined\<close>.  (On an engine with
  \<open>Array.prototype.with\<close> the read of \<open>with\<close> on a sequence yields that method; the parser
  only copies this value into the \<open>with\<close> field of a step that is itself a sequence, and
  nothing below looks at that field.)
\<close>

fun get_prop :: "jsval \<Rightarrow> string \<Rightarrow> jsval" where
  "get_prop (JObj kvs) k = (case map_of kvs k of Some v \<Rightarrow> v | None \<Rightarrow> JUndefined)"
| "get_prop v k = JUndefined"

text \<open>The \<open>TypeError\<close> of a property read on \<open>null\<close> or \<open>undefined\<close> (message as Node prints
  it).\<close>

definition read_error :: "jsval \<Rightarrow> string \<Rightarrow> js_error" where
  "read_error v k =
     TypeError (''Cannot read properties of '' @ (if v = JNull then ''null'' else ''undefined'')
                @ '' (reading '' @ [CHR 0x27] @ k @ [CHR 0x27] @ '')'')"

text \<open>Decimal rendering of an array index, as in a template literal \<open>${stepIndex}\<close> and in
  the keys \<open>Object.entries\<close> gives for a sequence.\<close>

definition digit_char :: "nat \<Rightarrow> char" where
  "digit_char d = ''0123456789'' ! d"

fun string_of_nat :: "nat \<Rightarrow> string" where
  "string_of_nat n =
     (if n < 10 then [digit_char n]
      else string_of_nat (n div 10) @ [digit_char (n mod 10)])"

fun index_entries :: "nat \<Rightarrow> 'a list \<Rightarrow> (string \<times> 'a) list" where
  "index_entries i [] = []"
| "index_entries i (x # xs) = (string_of_nat i, x) # index_entries (Suc i) xs"

text \<open>\<open>Object.keys\<close> and \<open>Object.entries\<close>: own enumerable properties; \<open>null\<close> and
  \<open>undefined\<close> cannot be converted to an object.\<close>

fun object_entries :: "jsval \<Rightarrow> js_error + (string \<times> jsval) list" where
  "object_entries JUndefined = Inl (TypeError ''Cannot convert undefined or null to object'')"
| "object_entries JNull = Inl (TypeError ''Cannot convert undefined or null to object'')"
| "object_entries (JObj kvs) = Inr kvs"
| "object_entries (JArr xs) = Inr (index_entries 0 xs)"
| "object_entries (JStr s) = Inr (index_entries 0 (map (\<lambda>c. JStr [c]) s))"
| "object_entries v = Inr []"

definition object_keys :: "jsval \<Rightarrow> js_error + string list" where
  "object_keys v = (case object_entries v of Inl e \<Rightarrow> Inl e | Inr kvs \<Rightarrow> Inr (map fst kvs))"

text \<open>\<open>Array.isArray(x) ? x : [x]\<close>.\<close>

definition as_array :: "jsval \<Rightarrow> jsval list" where
  "as_array v = (if isArray v then elems v else [v])"

definition quoted :: "string \<Rightarrow> string" where
  "quoted s = [CHR 0x27] @ s @ [CHR 0x27]"

text \<open>\<open>xs.join('\n')\<close> on strings.\<close>

fun join_lines :: "string list \<Rightarrow> string" where
  "join_lines [] = []"
| "join_lines [x] = x"
| "join_lines (x # y # ys) = x @ [CHR 0x0A] @ join_lines (y # ys)"

section \<open>The AST and the parse result\<close>

text \<open>
  The interfaces of \<open>WorkflowParser.ts\<close>, with the fields the parser sets.  Fields that are
  copied from the document without inspection keep the decoded value (\<open>JUndefined\<close> when the
  key is absent); \<open>branches\<close>, \<open>tags\<close>, \<open>paths\<close>, \<open>needs\<close> and \<open>strategy\<close> are \<open>None\<close> while
  the local variable is still \<open>undefined\<close>.
\<close>

record SourceLocation =
  loc_line :: nat
  loc_column :: nat
  loc_file :: "string option"

datatype severity = SevError | SevWarning

record ParseError =
  message :: string
  severity :: severity

record TriggerAST =
  t_type :: string
  t_events :: "jsval list"
  t_branches :: "jsval list option"
  t_tags :: "jsval list option"
  t_paths :: "jsval list option"

record StepAST =
  s_type :: string
  s_id :: jsval
  s_name :: jsval
  s_uses :: jsval
  s_run :: jsval
  s_with :: jsval
  s_env :: jsval
  s_if :: jsval
  s_continueOnError :: jsval

record Strategy =
  st_matrix :: jsval
  st_failFast :: jsval
  st_maxParallel :: jsval

record JobAST =
  j_type :: string
  j_id :: string
  j_name :: jsval
  j_runsOn :: jsval
  j_steps :: "StepAST list"
  j_needs :: "jsval list option"
  j_if :: jsval
  j_strategy :: "Strategy option"
  j_env :: jsval
  j_permissions :: jsval
  j_timeout :: jsval

text \<open>
  The object \<open>jobs\<close> of \<open>buildWorkflowAST\<close>: its own enumerable properties in enumeration
  order, and its prototype (\<open>None\<close> while it is still \<open>Object.prototype\<close>, as for a fresh
  \<open>{}\<close>).
\<close>

record JobsObject =
  jobs_own :: "(string \<times> JobAST) list"
  jobs_proto :: "JobAST option"

record WorkflowAST =
  w_type :: string
  w_name :: jsval
  w_on :: TriggerAST
  w_jobs :: JobsObject
  w_env :: jsval
  w_defaults :: jsval
  w_concurrency :: jsval
  w_location :: SourceLocation

record ParseResult =
  res_ast :: "WorkflowAST option"
  res_errors :: "ParseError list"

text \<open>
  A method that receives the shared \<open>errors\<close> array takes the list and returns it with what
  it pushed, next to its outcome: \<open>Inl\<close> an exception, \<open>Inr\<close> the returned value.  What was
  pushed before an exception stays in the list.
\<close>

type_synonym 'a outcome = "(js_error + 'a) \<times> ParseError list"

definition err :: "string \<Rightarrow> ParseError" where
  "err m = \<lparr>message = m, severity = SevError\<rparr>"

text \<open>The message texts of the parser (string and template literals of the source).\<close>

definition invalid_yaml_msg :: string where
  "invalid_yaml_msg = ''Invalid YAML: expected object''"

definition yaml_parse_error_msg :: "js_error \<Rightarrow> string" where
  "yaml_parse_error_msg error = ''YAML parse error: '' @ error_message error"

definition missing_on_msg :: string where
  "missing_on_msg = ''Missing required field 'on' (trigger configuration)''"

definition invalid_jobs_msg :: string where
  "invalid_jobs_msg = ''Missing or invalid 'jobs' field''"

definition missing_runs_on_msg :: "string \<Rightarrow> string" where
  "missing_runs_on_msg jobId =
     ''Job '' @ quoted jobId @ '': missing required field '' @ quoted ''runs-on''"

definition steps_not_array_msg :: "string \<Rightarrow> string" where
  "steps_not_array_msg jobId = ''Job '' @ quoted jobId @ '': 'steps' must be an array''"

definition step_missing_msg :: "string \<Rightarrow> nat \<Rightarrow> string" where
  "step_missing_msg jobId stepIndex =
     ''Job '' @ quoted jobId @ '', step '' @ string_of_nat stepIndex
       @ '': must have either 'uses' or '' @ quoted ''run''"

section \<open>WorkflowParser\<close>

subsection \<open>parseStep\<close>

definition parseStep :: "jsval \<Rightarrow> string \<Rightarrow> nat \<Rightarrow> ParseError list \<Rightarrow> StepAST outcome" where
  "parseStep stepConfig jobId stepIndex errors =
     (if nullish stepConfig then (Inl (read_error stepConfig ''uses''), errors)
      else
        let errors1 =
              (if \<not> truthy (get_prop stepConfig ''uses'') \<and> \<not> truthy (get_prop stepConfig ''run'')
               then errors @ [err (step_missing_msg jobId stepIndex)]
               else errors)
        in (Inr \<lparr>s_type = ''step'',
                 s_id = get_prop stepConfig ''id'',
                 s_name = get_prop stepConfig ''name'',
                 s_uses = get_prop stepConfig ''uses'',
                 s_run = get_prop stepConfig ''run'',
                 s_with = get_prop stepConfig ''with'',
                 s_env = get_prop stepConfig ''env'',
                 s_if = get_prop stepConfig ''if'',
                 s_continueOnError = get_prop stepConfig ''continue-on-error''\<rparr>,
            errors1))"

subsection \<open>parseJob\<close>

text \<open>The loop \<open>for (let i = 0; i < jobConfig.steps.length; i++)\<close>: the remaining elements,
  the index \<open>i\<close>, the \<open>steps\<close> array built so far.\<close>

fun parseSteps ::
  "jsval list \<Rightarrow> string \<Rightarrow> nat \<Rightarrow> StepAST list \<Rightarrow> ParseError list \<Rightarrow> StepAST list outcome" where
  "parseSteps [] jobId i steps errors = (Inr steps, errors)"
| "parseSteps (stepConfig # rest) jobId i steps errors =
     (case parseStep stepConfig jobId i errors of
        (Inl e, errors1) \<Rightarrow> (Inl e, errors1)
      | (Inr step, errors1) \<Rightarrow> parseSteps rest jobId (Suc i) (steps @ [step]) errors1)"

definition parseJob :: "string \<Rightarrow> jsval \<Rightarrow> ParseError list \<Rightarrow> JobAST outcome" where
  "parseJob jobId jobConfig errors =
     (if nullish jobConfig then (Inl (read_error jobConfig ''runs-on''), errors)
      else
        let errors1 =
              (if \<not> truthy (get_prop jobConfig ''runs-on'')
               then errors @ [err (missing_runs_on_msg jobId)]
               else errors)
        in
        case (if isArray (get_prop jobConfig ''steps'')
              then parseSteps (elems (get_prop jobConfig ''steps'')) jobId 0 [] errors1
              else if truthy (get_prop jobConfig ''steps'')
              then (Inr [], errors1 @ [err (steps_not_array_msg jobId)])
              else (Inr [], errors1)) of
          (Inl e, errors2) \<Rightarrow> (Inl e, errors2)
        | (Inr steps, errors2) \<Rightarrow>
            (Inr \<lparr>j_type = ''job'',
                  j_id = jobId,
                  j_name = get_prop jobConfig ''name'',
                  j_runsOn = get_prop jobConfig ''runs-on'',
                  j_steps = steps,
                  j_needs = (if truthy (get_prop jobConfig ''needs'')
                             then Some (as_array (get_prop jobConfig ''needs'')) else None),
                  j_if = get_prop jobConfig ''if'',
                  j_strategy =
                    (if truthy (get_prop jobConfig ''strategy'')
                     then Some \<lparr>st_matrix = get_prop (get_prop jobConfig ''strategy'') ''matrix'',
                                st_failFast = get_prop (get_prop jobConfig ''strategy'') ''fail-fast'',
                                st_maxParallel =
                                  get_prop (get_prop jobConfig ''strategy'') ''max-parallel''\<rparr>
                     else None),
                  j_env = get_prop jobConfig ''env'',
                  j_permissions = get_prop jobConfig ''permissions'',
                  j_timeout = get_prop jobConfig ''timeout-minutes''\<rparr>,
             errors2))"

subsection \<open>parseTrigger\<close>

text \<open>One round of \<open>for (const event of events)\<close>, on the three locals \<open>branches\<close>, \<open>tags\<close>,
  \<open>paths\<close>.\<close>

definition trigger_event ::
  "jsval \<Rightarrow> string \<Rightarrow> jsval list option \<times> jsval list option \<times> jsval list option
     \<Rightarrow> jsval list option \<times> jsval list option \<times> jsval list option" where
  "trigger_event onConfig event = (\<lambda>(branches, tags, paths).
     let eventConfig = get_prop onConfig event in
     if truthy eventConfig \<and> typeof eventConfig = ''object''
     then ((if truthy (get_prop eventConfig ''branches'')
            then Some (as_array (get_prop eventConfig ''branches'')) else branches),
           (if truthy (get_prop eventConfig ''tags'')
            then Some (as_array (get_prop eventConfig ''tags'')) else tags),
           (if truthy (get_prop eventConfig ''paths'')
            then Some (as_array (get_prop eventConfig ''paths'')) else paths))
     else (branches, tags, paths))"

definition parseTrigger :: "jsval \<Rightarrow> ParseError list \<Rightarrow> TriggerAST outcome" where
  "parseTrigger onConfig errors =
     (if typeof onConfig = ''string''
      then (Inr \<lparr>t_type = ''trigger'', t_events = [onConfig],
                 t_branches = None, t_tags = None, t_paths = None\<rparr>, errors)
      else if isArray onConfig
      then (Inr \<lparr>t_type = ''trigger'', t_events = elems onConfig,
                 t_branches = None, t_tags = None, t_paths = None\<rparr>, errors)
      else if typeof onConfig = ''object''
      then (case object_keys onConfig of
              Inl e \<Rightarrow> (Inl e, errors)
            | Inr keys \<Rightarrow>
                (case fold (trigger_event onConfig) keys (None, None, None) of
                   (bs, ts, ps) \<Rightarrow>
                     (Inr \<lparr>t_type = ''trigger'', t_events = map JStr keys,
                           t_branches = bs, t_tags = ts, t_paths = ps\<rparr>, errors)))
      else (Inr \<lparr>t_type = ''trigger'', t_events = [],
                 t_branches = None, t_tags = None, t_paths = None\<rparr>, errors))"

subsection \<open>buildWorkflowAST\<close>

text \<open>
  The assignment \<open>jobs[jobId] = job\<close> on the object that started as \<open>{}\<close>.  For the key
  \<open>__proto__\<close> the assignment reaches the accessor inherited from \<open>Object.prototype\<close>: the
  job, an object, becomes the prototype of \<open>jobs\<close> and no own property is created.  For
  every other key an own property is written: a key already present keeps its place and
  gets the new value, a new key goes to the end.  (The entries arrive in the enumeration
  order of \<open>raw.jobs\<close>, index-like keys first, so appending keeps the enumeration order of
  \<open>jobs\<close>.)
\<close>

definition set_job :: "string \<Rightarrow> JobAST \<Rightarrow> JobsObject \<Rightarrow> JobsObject" where
  "set_job jobId job jobs =
     (if jobId = ''__proto__'' then jobs\<lparr>jobs_proto := Some job\<rparr>
      else jobs\<lparr>jobs_own := AList.update jobId job (jobs_own jobs)\<rparr>)"

text \<open>The fresh object \<open>{}\<close>.\<close>

definition empty_jobs :: JobsObject where
  "empty_jobs = \<lparr>jobs_own = [], jobs_proto = None\<rparr>"

text \<open>The loop \<open>for (const [jobId, jobConfig] of Object.entries(raw.jobs))\<close>.\<close>

fun parseJobs ::
  "(string \<times> jsval) list \<Rightarrow> JobsObject \<Rightarrow> ParseError list \<Rightarrow> JobsObject outcome" where
  "parseJobs [] jobs errors = (Inr jobs, errors)"
| "parseJobs ((jobId, jobConfig) # rest) jobs errors =
     (case parseJob jobId jobConfig errors of
        (Inl e, errors1) \<Rightarrow> (Inl e, errors1)
      | (Inr job, errors1) \<Rightarrow> parseJobs rest (set_job jobId job jobs) errors1)"

definition buildWorkflowAST ::
  "jsval \<Rightarrow> string option \<Rightarrow> ParseError list \<Rightarrow> WorkflowAST outcome" where
  "buildWorkflowAST raw filePath errors =
     (if nullish raw then (Inl (read_error raw ''on''), errors)
      else
        let errors1 =
              (if \<not> truthy (get_prop raw ''on'')
               then errors @ [err missing_on_msg]
               else errors);
            errors2 =
              (if \<not> truthy (get_prop raw ''jobs'') \<or> typeof (get_prop raw ''jobs'') \<noteq> ''object''
               then errors1 @ [err invalid_jobs_msg]
               else errors1)
        in
        case parseTrigger (get_prop raw ''on'') errors2 of
          (Inl e, errors3) \<Rightarrow> (Inl e, errors3)
        | (Inr trigger, errors3) \<Rightarrow>
            (case (if truthy (get_prop raw ''jobs'') \<and> typeof (get_prop raw ''jobs'') = ''object''
                   then (case object_entries (get_prop raw ''jobs'') of
                           Inl e \<Rightarrow> (Inl e, errors3)
                         | Inr entries \<Rightarrow> parseJobs entries empty_jobs errors3)
                   else (Inr empty_jobs, errors3)) of
               (Inl e, errors4) \<Rightarrow> (Inl e, errors4)
             | (Inr jobs, errors4) \<Rightarrow>
                 (Inr \<lparr>w_type = ''workflow'',
                       w_name = get_prop raw ''name'',
                       w_on = trigger,
                       w_jobs = jobs,
                       w_env = get_prop raw ''env'',
                       w_defaults = get_prop raw ''defaults'',
                       w_concurrency = get_prop raw ''concurrency'',
                       w_location = \<lparr>loc_line = 1, loc_column = 1, loc_file = filePath\<rparr>\<rparr>,
                  errors4)))"

subsection \<open>parse\<close>

text \<open>
  The decoder \<open>yaml.load\<close> is a collaborator outside the repository: it is the parameter
  \<open>load\<close>, which gives the decoded value or the exception it throws.  \<open>parse_try\<close> is the
  body of the \<open>try\<close> block, \<open>parse\<close> the whole method with its \<open>catch\<close>.
\<close>

definition parse_try ::
  "(string \<Rightarrow> js_error + jsval) \<Rightarrow> string \<Rightarrow> string option \<Rightarrow> js_error + ParseResult" where
  "parse_try load yamlContent filePath =
     (case load yamlContent of
        Inl e \<Rightarrow> Inl e
      | Inr rawYaml \<Rightarrow>
          if \<not> truthy rawYaml \<or> typeof rawYaml \<noteq> ''object''
          then Inr \<lparr>res_ast = None, res_errors = [err invalid_yaml_msg]\<rparr>
          else (case buildWorkflowAST rawYaml filePath [] of
                  (Inl e, errors1) \<Rightarrow> Inl e
                | (Inr a, errors1) \<Rightarrow> Inr \<lparr>res_ast = Some a, res_errors = errors1\<rparr>))"

definition parse ::
  "(string \<Rightarrow> js_error + jsval) \<Rightarrow> string \<Rightarrow> string option \<Rightarrow> js_error + ParseResult" where
  "parse load yamlContent filePath =
     (case parse_try load yamlContent filePath of
        Inr result \<Rightarrow> Inr result
      | Inl error \<Rightarrow>
          Inr \<lparr>res_ast = None, res_errors = [err (yaml_parse_error_msg error)]\<rparr>)"

subsection \<open>parseWorkflow\<close>

text \<open>\<open>parseWorkflow_result\<close> is the part of \<open>parseWorkflow\<close> after the call
  \<open>parser.parse(yamlContent, filePath)\<close>, as a function of that call's result.\<close>

definition parseWorkflow_result :: "ParseResult \<Rightarrow> js_error + WorkflowAST" where
  "parseWorkflow_result result =
     (case res_ast result of
        None \<Rightarrow>
          Inl (Error (''Failed to parse workflow:'' @ [CHR 0x0A]
                      @ join_lines (map message (res_errors result))))
      | Some a \<Rightarrow>
          if length (res_errors result) > 0
             \<and> length (filter (\<lambda>e. severity e = SevError) (res_errors result)) > 0
          then Inl (Error (''Workflow has critical errors:'' @ [CHR 0x0A]
                           @ join_lines (map message
                                          (filter (\<lambda>e. severity e = SevError)
                                                  (res_errors result)))))
          else Inr a)"

definition parseWorkflow ::
  "(string \<Rightarrow> js_error + jsval) \<Rightarrow> string \<Rightarrow> string option \<Rightarrow> js_error + WorkflowAST" where
  "parseWorkflow load yamlContent filePath =
     (case parse load yamlContent filePath of
        Inl e \<Rightarrow> Inl e
      | Inr result \<Rightarrow> parseWorkflow_result result)"

section \<open>The diagnostics as the specification orders them\<close>

text \<open>
  The specification lists the diagnostics of one call in the order of detection: the
  top-level \<open>on\<close> check, the top-level \<open>jobs\<close> check, then the checks of each job in the
  order of the \<open>jobs\<close> mapping, within a job first \<open>runs-on\<close> and then the steps by
  index.  \<open>spec_diagnostics\<close> writes that list down as a concatenation, one function per
  check.  Each check decides with the test the source applies (truthiness, \<open>typeof\<close>,
  \<open>Array.isArray\<close>); what is compared with \<open>buildWorkflowAST\<close> is the order of the
  diagnostics and that none is missing.
\<close>

definition spec_on_check :: "jsval \<Rightarrow> ParseError list" where
  "spec_on_check raw =
     (if truthy (get_prop raw ''on'') then []
      else [err missing_on_msg])"

definition spec_jobs_check :: "jsval \<Rightarrow> ParseError list" where
  "spec_jobs_check raw =
     (if truthy (get_prop raw ''jobs'') \<and> typeof (get_prop raw ''jobs'') = ''object'' then []
      else [err invalid_jobs_msg])"

definition spec_step_check :: "string \<Rightarrow> nat \<Rightarrow> jsval \<Rightarrow> ParseError list" where
  "spec_step_check jobId i stepConfig =
     (if truthy (get_prop stepConfig ''uses'') \<or> truthy (get_prop stepConfig ''run'') then []
      else [err (step_missing_msg jobId i)])"

fun spec_steps_checks :: "string \<Rightarrow> nat \<Rightarrow> jsval list \<Rightarrow> ParseError list" where
  "spec_steps_checks jobId i [] = []"
| "spec_steps_checks jobId i (s # ss) = spec_step_check jobId i s @ spec_steps_checks jobId (Suc i) ss"

definition spec_job_checks :: "string \<times> jsval \<Rightarrow> ParseError list" where
  "spec_job_checks = (\<lambda>(jobId, jobConfig).
     (if truthy (get_prop jobConfig ''runs-on'') then []
      else [err (missing_runs_on_msg jobId)])
     @ (if isArray (get_prop jobConfig ''steps'')
        then spec_steps_checks jobId 0 (elems (get_prop jobConfig ''steps''))
        else if truthy (get_prop jobConfig ''steps'')
        then [err (steps_not_array_msg jobId)]
        else []))"

text \<open>The entries of the \<open>jobs\<close> value that the job loop visits.\<close>

definition job_entries :: "jsval \<Rightarrow> (string \<times> jsval) list" where
  "job_entries raw =
     (if truthy (get_prop raw ''jobs'') \<and> typeof (get_prop raw ''jobs'') = ''object''
      then (case object_entries (get_prop raw ''jobs'') of Inl e \<Rightarrow> [] | Inr entries \<Rightarrow> entries)
      else [])"

definition spec_diagnostics :: "jsval \<Rightarrow> ParseError list" where
  "spec_diagnostics raw =
     spec_on_check raw @ spec_jobs_check raw @ concat (map spec_job_checks (job_entries raw))"

text \<open>
  Documents on which no property is read from \<open>null\<close> or \<open>undefined\<close>: the \<open>on\<close> value is
  not \<open>null\<close>, no visited job entry is \<open>null\<close> or \<open>undefined\<close>, and no element of a
  \<open>steps\<close> sequence is.
\<close>

definition steps_null_free :: "jsval \<Rightarrow> bool" where
  "steps_null_free jobConfig =
     (isArray (get_prop jobConfig ''steps'')
        \<longrightarrow> (\<forall>s\<in>set (elems (get_prop jobConfig ''steps'')). \<not> nullish s))"

definition job_null_free :: "string \<times> jsval \<Rightarrow> bool" where
  "job_null_free = (\<lambda>(jobId, jobConfig). \<not> nullish jobConfig \<and> steps_null_free jobConfig)"

definition null_free :: "jsval \<Rightarrow> bool" where
  "null_free raw =
     (get_prop raw ''on'' \<noteq> JNull \<and> (\<forall>entry\<in>set (job_entries raw). job_null_free entry))"

section \<open>The trigger filters as the specification describes them\<close>

text \<open>
  An event's filter object specifies a filter field when the event's value is a mapping (or
  a sequence: anything non-null with \<open>typeof\<close> \<open>object\<close>) whose field has a truthy value.  For
  one field, the Trigger is said to keep the value of the last event, in iteration order,
  that specifies it, coerced to a list.
\<close>

definition specifies :: "string \<Rightarrow> jsval \<Rightarrow> bool" where
  "specifies field eventConfig =
     (truthy eventConfig \<and> typeof eventConfig = ''object''
      \<and> truthy (get_prop eventConfig field))"

definition spec_last_filter :: "string \<Rightarrow> (string \<times> jsval) list \<Rightarrow> jsval list option" where
  "spec_last_filter field kvs =
     (case filter (\<lambda>(event, eventConfig). specifies field eventConfig) kvs of
        [] \<Rightarrow> None
      | x # xs \<Rightarrow> Some (as_array (get_prop (snd (last (x # xs))) field)))"

section \<open>Shapes of input and example documents\<close>

text \<open>A decoder that returns the value \<open>v\<close>; it stands for \<open>yaml.load\<close> on a text that
  decodes to \<open>v\<close>.\<close>

definition decodes_to :: "jsval \<Rightarrow> string \<Rightarrow> js_error + jsval" where
  "decodes_to v yamlContent = Inr v"

text \<open>The top-level values that are neither a sequence nor a mapping.\<close>

fun scalar_or_null :: "jsval \<Rightarrow> bool" where
  "scalar_or_null (JArr xs) = False"
| "scalar_or_null (JObj kvs) = False"
| "scalar_or_null v = True"

text \<open>A workflow whose \<open>on\<close> key has no value, and the document it decodes to.\<close>

definition null_on_yaml :: string where
  "null_on_yaml = ''on:'' @ [CHR 0x0A] @ ''jobs:'' @ [CHR 0x0A] @ ''  test:'' @ [CHR 0x0A]
     @ ''    runs-on: ubuntu-latest'' @ [CHR 0x0A] @ ''    steps:'' @ [CHR 0x0A]
     @ ''      - run: echo test''"

definition null_on_doc :: jsval where
  "null_on_doc =
     JObj [(''on'', JNull),
           (''jobs'', JObj [(''test'', JObj [(''runs-on'', JStr ''ubuntu-latest''),
                                            (''steps'', JArr [JObj [(''run'', JStr ''echo test'')]])])])]"

text \<open>A workflow whose \<open>jobs\<close> value is a sequence.\<close>

definition jobs_sequence_yaml :: string where
  "jobs_sequence_yaml = ''on: push'' @ [CHR 0x0A] @ ''jobs:'' @ [CHR 0x0A]
     @ ''  - runs-on: ubuntu-latest''"

definition jobs_sequence_doc :: jsval where
  "jobs_sequence_doc =
     JObj [(''on'', JStr ''push''),
           (''jobs'', JArr [JObj [(''runs-on'', JStr ''ubuntu-latest'')]])]"

text \<open>The minimal workflow of the specification's end-to-end example.\<close>

definition minimal_yaml :: string where
  "minimal_yaml = ''on: push'' @ [CHR 0x0A] @ ''jobs:'' @ [CHR 0x0A] @ ''  test:'' @ [CHR 0x0A]
     @ ''    runs-on: ubuntu-latest'' @ [CHR 0x0A] @ ''    steps:'' @ [CHR 0x0A]
     @ ''      - run: echo test''"

definition minimal_job :: jsval where
  "minimal_job = JObj [(''runs-on'', JStr ''ubuntu-latest''),
                       (''steps'', JArr [JObj [(''run'', JStr ''echo test'')]])]"

definition minimal_doc :: jsval where
  "minimal_doc =
     JObj [(''on'', JStr ''push''),
           (''jobs'', JObj [(''test'', JObj [(''runs-on'', JStr ''ubuntu-latest''),
                                            (''steps'', JArr [JObj [(''run'', JStr ''echo test'')]])])])]"

text \<open>A workflow with a finding at every level: no \<open>on\<close>, a job without \<open>runs-on\<close> whose
  first and third steps have neither \<open>uses\<close> nor \<open>run\<close>, a job whose \<open>steps\<close> is a string,
  and a job that is a number.\<close>

definition many_findings_yaml :: string where
  "many_findings_yaml = ''name: CI'' @ [CHR 0x0A] @ ''jobs:'' @ [CHR 0x0A]
     @ ''  build:'' @ [CHR 0x0A] @ ''    steps:'' @ [CHR 0x0A]
     @ ''      - name: first'' @ [CHR 0x0A] @ ''      - run: make'' @ [CHR 0x0A]
     @ ''      - third'' @ [CHR 0x0A]
     @ ''  test:'' @ [CHR 0x0A] @ ''    runs-on: ubuntu-latest'' @ [CHR 0x0A]
     @ ''    steps: npm test'' @ [CHR 0x0A]
     @ ''  deploy: 7''"

definition many_findings_kvs :: "(string \<times> jsval) list" where
  "many_findings_kvs =
     [(''name'', JStr ''CI''),
      (''jobs'',
       JObj [(''build'', JObj [(''steps'', JArr [JObj [(''name'', JStr ''first'')],
                                               JObj [(''run'', JStr ''make'')],
                                               JStr ''third''])]),
             (''test'', JObj [(''runs-on'', JStr ''ubuntu-latest''),
                              (''steps'', JStr ''npm test'')]),
             (''deploy'', JNum (Finite 7))])]"

text \<open>A workflow without \<open>on\<close> whose only job has no value.\<close>

definition null_job_yaml :: string where
  "null_job_yaml = ''jobs:'' @ [CHR 0x0A] @ ''  test:''"

definition null_job_doc :: jsval where
  "null_job_doc = JObj [(''jobs'', JObj [(''test'', JNull)])]"

text \<open>A workflow whose job has no \<open>runs-on\<close> and whose \<open>steps\<close> holds one element without a
  value.\<close>

definition null_step_yaml :: string where
  "null_step_yaml = ''on: push'' @ [CHR 0x0A] @ ''jobs:'' @ [CHR 0x0A] @ ''  test:'' @ [CHR 0x0A]
     @ ''    steps:'' @ [CHR 0x0A] @ ''      -''"

definition null_step_doc :: jsval where
  "null_step_doc =
     JObj [(''on'', JStr ''push''),
           (''jobs'', JObj [(''test'', JObj [(''steps'', JArr [JNull])])])]"

text \<open>The minimal workflow with its job named \<open>__proto__\<close>.\<close>

definition proto_job_yaml :: string where
  "proto_job_yaml = ''on: push'' @ [CHR 0x0A] @ ''jobs:'' @ [CHR 0x0A] @ ''  __proto__:''
     @ [CHR 0x0A] @ ''    runs-on: ubuntu-latest'' @ [CHR 0x0A] @ ''    steps:'' @ [CHR 0x0A]
     @ ''      - run: echo test''"

definition proto_job_doc :: jsval where
  "proto_job_doc =
     JObj [(''on'', JStr ''push''),
           (''jobs'', JObj [(''__proto__'', JObj [(''runs-on'', JStr ''ubuntu-latest''),
                                                 (''steps'', JArr [JObj [(''run'', JStr ''echo test'')]])])])]"

text \<open>A valid workflow except for its \<open>on\<close> value: the text with \<open>v\<close> written after \<open>on:\<close>,
  the decoded mapping with the value \<open>v\<close>, and the AST the builder makes of it when the
  Trigger's event list is \<open>evs\<close>.\<close>

definition falsy_on_yaml :: "string \<Rightarrow> string" where
  "falsy_on_yaml v = ''on: '' @ v @ [CHR 0x0A] @ ''jobs:'' @ [CHR 0x0A] @ ''  test:'' @ [CHR 0x0A]
     @ ''    runs-on: ubuntu-latest'' @ [CHR 0x0A] @ ''    steps:'' @ [CHR 0x0A]
     @ ''      - run: echo test''"

definition falsy_on_kvs :: "jsval \<Rightarrow> (string \<times> jsval) list" where
  "falsy_on_kvs v =
     [(''on'', v),
      (''jobs'', JObj [(''test'', JObj [(''runs-on'', JStr ''ubuntu-latest''),
                                       (''steps'', JArr [JObj [(''run'', JStr ''echo test'')]])])])]"

definition falsy_on_ast :: "jsval list \<Rightarrow> WorkflowAST" where
  "falsy_on_ast evs =
     \<lparr>w_type = ''workflow'', w_name = JUndefined,
      w_on = \<lparr>t_type = ''trigger'', t_events = evs, t_branches = None, t_tags = None,
              t_paths = None\<rparr>,
      w_jobs =
        \<lparr>jobs_own =
           [(''test'',
             \<lparr>j_type = ''job'', j_id = ''test'', j_name = JUndefined,
              j_runsOn = JStr ''ubuntu-latest'',
              j_steps =
                [\<lparr>s_type = ''step'', s_id = JUndefined, s_name = JUndefined, s_uses = JUndefined,
                  s_run = JStr ''echo test'', s_with = JUndefined, s_env = JUndefined,
                  s_if = JUndefined, s_continueOnError = JUndefined\<rparr>],
              j_needs = None, j_if = JUndefined, j_strategy = None, j_env = JUndefined,
              j_permissions = JUndefined, j_timeout = JUndefined\<rparr>)],
         jobs_proto = None\<rparr>,
      w_env = JUndefined, w_defaults = JUndefined, w_concurrency = JUndefined,
      w_location = \<lparr>loc_line = 1, loc_column = 1, loc_file = None\<rparr>\<rparr>"

text \<open>Results to run \<open>parseWorkflow_result\<close> on: a workflow AST and a warning.\<close>

definition empty_workflow :: WorkflowAST where
  "empty_workflow =
     \<lparr>w_type = ''workflow'', w_name = JUndefined,
      w_on = \<lparr>t_type = ''trigger'', t_events = [JStr ''push''], t_branches = None,
              t_tags = None, t_paths = None\<rparr>,
      w_jobs = \<lparr>jobs_own = [], jobs_proto = None\<rparr>,
      w_env = JUndefined, w_defaults = JUndefined, w_concurrency = JUndefined,
      w_location = \<lparr>loc_line = 1, loc_column = 1, loc_file = None\<rparr>\<rparr>"

definition warning :: "string \<Rightarrow> ParseError" where
  "warning m = \<lparr>message = m, severity = SevWarning\<rparr>"

section \<open>Unfolding the parser on a concrete document\<close>

lemmas parser_defs =
  parse_def parse_try_def buildWorkflowAST_def parseTrigger_def trigger_event_def parseJob_def
  parseStep_def object_keys_def as_array_def nullish_def Let_def decodes_to_def read_error_def
  set_job_def empty_jobs_def

lemmas message_defs =
  err_def invalid_yaml_msg_def yaml_parse_error_msg_def missing_on_msg_def invalid_jobs_msg_def
  missing_runs_on_msg_def steps_not_array_msg_def step_missing_msg_def quoted_def digit_char_def

section \<open>How the sub-parsers treat the diagnostics list\<close>

lemma parseStep_Inr:
  "\<not> nullish s \<Longrightarrow> \<exists>st. parseStep s jobId i errs = (Inr st, errs @ spec_step_check jobId i s)"
  by (simp add: parseStep_def spec_step_check_def Let_def)

lemma parseStep_Inl:
  "nullish s \<Longrightarrow> parseStep s jobId i errs = (Inl (read_error s ''uses''), errs)"
  by (simp add: parseStep_def)

lemma parseSteps_Inr:
  "\<forall>s\<in>set ss. \<not> nullish s \<Longrightarrow>
   \<exists>steps. parseSteps ss jobId i acc errs = (Inr steps, errs @ spec_steps_checks jobId i ss)"
proof (induction ss arbitrary: i acc errs)
  case Nil
  then show ?case by simp
next
  case (Cons s ss)
  from Cons.prems have "\<not> nullish s" by simp
  then obtain st where st: "parseStep s jobId i errs = (Inr st, errs @ spec_step_check jobId i s)"
    using parseStep_Inr by blast
  from Cons.prems have "\<forall>s\<in>set ss. \<not> nullish s" by simp
  from Cons.IH[OF this, of "Suc i" "acc @ [st]" "errs @ spec_step_check jobId i s"] st
  show ?case by simp
qed

lemma parseJob_Inr:
  assumes "\<not> nullish jobConfig" "steps_null_free jobConfig"
  shows "\<exists>job. parseJob jobId jobConfig errs = (Inr job, errs @ spec_job_checks (jobId, jobConfig))"
proof (cases "isArray (get_prop jobConfig ''steps'')")
  case True
  with assms have "\<forall>s\<in>set (elems (get_prop jobConfig ''steps'')). \<not> nullish s"
    by (simp add: steps_null_free_def)
  from parseSteps_Inr[OF this] obtain steps where
    "parseSteps (elems (get_prop jobConfig ''steps'')) jobId 0 []
       (errs @ (if truthy (get_prop jobConfig ''runs-on'') then []
                else [err (missing_runs_on_msg jobId)]))
     = (Inr steps, (errs @ (if truthy (get_prop jobConfig ''runs-on'') then []
                else [err (missing_runs_on_msg jobId)]))
         @ spec_steps_checks jobId 0 (elems (get_prop jobConfig ''steps'')))"
    by blast
  with True assms(1) show ?thesis
    by (auto simp add: parseJob_def spec_job_checks_def Let_def)
next
  case False
  with assms(1) show ?thesis
    by (simp add: parseJob_def spec_job_checks_def Let_def)
qed

lemma parseJob_nullish:
  "nullish jobConfig \<Longrightarrow> parseJob jobId jobConfig errs = (Inl (read_error jobConfig ''runs-on''), errs)"
  by (simp add: parseJob_def)

lemma parseJobs_Inr:
  "\<forall>entry\<in>set entries. job_null_free entry \<Longrightarrow>
   \<exists>jobs'. parseJobs entries jobs errs
            = (Inr jobs', errs @ concat (map spec_job_checks entries))"
proof (induction entries arbitrary: jobs errs)
  case Nil
  then show ?case by simp
next
  case (Cons entry entries)
  obtain jobId jobConfig where entry: "entry = (jobId, jobConfig)" by (cases entry)
  with Cons.prems have "\<not> nullish jobConfig" "steps_null_free jobConfig"
    by (simp_all add: job_null_free_def)
  then obtain job where
    job: "parseJob jobId jobConfig errs = (Inr job, errs @ spec_job_checks (jobId, jobConfig))"
    using parseJob_Inr by blast
  from Cons.prems have "\<forall>entry\<in>set entries. job_null_free entry" by simp
  from Cons.IH[OF this, of "set_job jobId job jobs" "errs @ spec_job_checks (jobId, jobConfig)"]
    job entry
  show ?case by simp
qed

lemma parseTrigger_errors: "snd (parseTrigger onConfig errs) = errs"
  by (simp add: parseTrigger_def split: sum.splits prod.splits)

lemma parseTrigger_null:
  "parseTrigger JNull errs = (Inl (TypeError ''Cannot convert undefined or null to object''), errs)"
  by (simp add: parseTrigger_def object_keys_def)

lemma object_keys_Inr: "\<not> nullish v \<Longrightarrow> \<exists>keys. object_keys v = Inr keys"
  by (cases v) (simp_all add: object_keys_def nullish_def)

lemma object_entries_Inr: "\<not> nullish v \<Longrightarrow> \<exists>entries. object_entries v = Inr entries"
  by (cases v) (simp_all add: nullish_def)

lemma parseTrigger_Inr:
  assumes "onConfig \<noteq> JNull"
  shows "\<exists>trigger. parseTrigger onConfig errs = (Inr trigger, errs)"
proof (cases "onConfig = JUndefined")
  case True
  then show ?thesis by (simp add: parseTrigger_def)
next
  case False
  with assms have "\<not> nullish onConfig" by (simp add: nullish_def)
  then obtain keys where "object_keys onConfig = Inr keys"
    using object_keys_Inr by blast
  then show ?thesis
    by (simp add: parseTrigger_def split: prod.splits)
qed

lemma buildWorkflowAST_Inr:
  assumes "\<not> nullish raw" "null_free raw"
  shows "\<exists>a. buildWorkflowAST raw filePath errs = (Inr a, errs @ spec_diagnostics raw)"
proof -
  let ?errors2 = "errs @ spec_on_check raw @ spec_jobs_check raw"
  from assms(2) obtain trigger where
    trigger: "parseTrigger (get_prop raw ''on'') ?errors2 = (Inr trigger, ?errors2)"
    using parseTrigger_Inr unfolding null_free_def by blast
  from assms(2) have "\<forall>entry\<in>set (job_entries raw). job_null_free entry"
    by (simp add: null_free_def)
  then obtain jobs where
    jobs: "parseJobs (job_entries raw) empty_jobs ?errors2
           = (Inr jobs, ?errors2 @ concat (map spec_job_checks (job_entries raw)))"
    using parseJobs_Inr by blast
  show ?thesis
  proof (cases "truthy (get_prop raw ''jobs'') \<and> typeof (get_prop raw ''jobs'') = ''object''")
    case True
    then have "\<not> nullish (get_prop raw ''jobs'')" by (auto simp: nullish_def)
    then obtain entries where entries: "object_entries (get_prop raw ''jobs'') = Inr entries"
      using object_entries_Inr by blast
    with True have "job_entries raw = entries" by (simp add: job_entries_def)
    with True entries trigger jobs assms(1) show ?thesis
      by (auto simp add: buildWorkflowAST_def spec_diagnostics_def spec_on_check_def
          spec_jobs_check_def Let_def)
  next
    case False
    then have "job_entries raw = []" by (auto simp add: job_entries_def)
    with False trigger assms(1) show ?thesis
      by (auto simp add: buildWorkflowAST_def spec_diagnostics_def spec_on_check_def
          spec_jobs_check_def Let_def)
  qed
qed

lemma parseStep_run:
  "parseStep s jobId i errs = (Inr st, errs') \<Longrightarrow> s_run st = get_prop s ''run''"
  by (auto simp add: parseStep_def Let_def split: if_splits)

lemma parseSteps_run:
  "parseSteps ss jobId i acc errs = (Inr steps, errs')
   \<Longrightarrow> map s_run steps = map s_run acc @ map (\<lambda>s. get_prop s ''run'') ss"
proof (induction ss arbitrary: i acc errs)
  case Nil
  then show ?case by simp
next
  case (Cons s ss)
  show ?case
  proof (cases "parseStep s jobId i errs")
    case (Pair r errs1)
    show ?thesis
    proof (cases r)
      case (Inl e)
      with Pair Cons.prems show ?thesis by simp
    next
      case (Inr st)
      with Pair Cons.prems have "parseSteps ss jobId (Suc i) (acc @ [st]) errs1 = (Inr steps, errs')"
        by simp
      from Cons.IH[OF this] parseStep_run[of s jobId i errs st errs1] Pair Inr
      show ?thesis by simp
    qed
  qed
qed

lemma spec_steps_checks_run:
  "\<forall>s\<in>set ss. truthy (get_prop s ''run'') \<Longrightarrow> spec_steps_checks jobId i ss = []"
  by (induction ss arbitrary: i) (simp_all add: spec_step_check_def)

lemma truthy_prop_not_nullish: "truthy (get_prop v k) \<Longrightarrow> \<not> nullish v"
  by (cases v) (simp_all add: nullish_def)

lemma parseStep_appends: "\<exists>rest. snd (parseStep s jobId i errs) = errs @ rest"
  by (simp add: parseStep_def Let_def)

lemma parseSteps_appends: "\<exists>rest. snd (parseSteps ss jobId i acc errs) = errs @ rest"
proof (induction ss arbitrary: i acc errs)
  case Nil
  then show ?case by simp
next
  case (Cons s ss)
  obtain r errs1 where step: "parseStep s jobId i errs = (r, errs1)"
    by (cases "parseStep s jobId i errs")
  with parseStep_appends[of s jobId i errs] obtain rest1 where errs1: "errs1 = errs @ rest1"
    by auto
  show ?case
  proof (cases r)
    case (Inl e)
    with step errs1 show ?thesis by simp
  next
    case (Inr st)
    from Cons.IH[of "Suc i" "acc @ [st]" errs1] obtain rest2 where
      "snd (parseSteps ss jobId (Suc i) (acc @ [st]) errs1) = errs1 @ rest2" by blast
    with step Inr errs1 show ?thesis by simp
  qed
qed

lemma parseJob_appends: "\<exists>rest. snd (parseJob jobId jobConfig errs) = errs @ rest"
proof (cases "nullish jobConfig")
  case True
  then show ?thesis by (simp add: parseJob_def)
next
  case False
  let ?errors1 = "if \<not> truthy (get_prop jobConfig ''runs-on'')
                  then errs @ [err (missing_runs_on_msg jobId)] else errs"
  obtain r errs2 where steps:
    "parseSteps (elems (get_prop jobConfig ''steps'')) jobId 0 [] ?errors1 = (r, errs2)"
    by (cases "parseSteps (elems (get_prop jobConfig ''steps'')) jobId 0 [] ?errors1")
  with parseSteps_appends[of "elems (get_prop jobConfig ''steps'')" jobId 0 "[]" ?errors1]
  obtain rest where "errs2 = ?errors1 @ rest" by auto
  then obtain rest' where errs2: "errs2 = errs @ rest'" by (cases "truthy (get_prop jobConfig ''runs-on'')") auto
  show ?thesis
  proof (cases "isArray (get_prop jobConfig ''steps'')")
    case True
    with False steps errs2 show ?thesis
      by (cases r) (simp_all add: parseJob_def Let_def)
  next
    case False
    with \<open>\<not> nullish jobConfig\<close> show ?thesis
      by (simp add: parseJob_def Let_def)
  qed
qed

lemma parseJobs_appends: "\<exists>rest. snd (parseJobs entries jobs errs) = errs @ rest"
proof (induction entries arbitrary: jobs errs)
  case Nil
  then show ?case by simp
next
  case (Cons entry entries)
  obtain jobId jobConfig where entry: "entry = (jobId, jobConfig)" by (cases entry)
  obtain r errs1 where job: "parseJob jobId jobConfig errs = (r, errs1)"
    by (cases "parseJob jobId jobConfig errs")
  with parseJob_appends[of jobId jobConfig errs] obtain rest1 where errs1: "errs1 = errs @ rest1"
    by auto
  show ?case
  proof (cases r)
    case (Inl e)
    with job entry errs1 show ?thesis by simp
  next
    case (Inr j)
    from Cons.IH[of "set_job jobId j jobs" errs1] obtain rest2 where
      "snd (parseJobs entries (set_job jobId j jobs) errs1) = errs1 @ rest2" by blast
    with job entry Inr errs1 show ?thesis by simp
  qed
qed

lemma buildWorkflowAST_appends:
  assumes "\<not> nullish raw"
  shows "\<exists>rest. snd (buildWorkflowAST raw filePath errs)
               = errs @ spec_on_check raw @ spec_jobs_check raw @ rest"
proof -
  let ?errors2 = "errs @ spec_on_check raw @ spec_jobs_check raw"
  obtain r where trigger: "parseTrigger (get_prop raw ''on'') ?errors2 = (r, ?errors2)"
    using parseTrigger_errors[of "get_prop raw ''on''" ?errors2]
    by (cases "parseTrigger (get_prop raw ''on'') ?errors2") auto
  have unfold: "buildWorkflowAST raw filePath errs =
     (case parseTrigger (get_prop raw ''on'') ?errors2 of
          (Inl e, errors3) \<Rightarrow> (Inl e, errors3)
        | (Inr trigger, errors3) \<Rightarrow>
            (case (if truthy (get_prop raw ''jobs'') \<and> typeof (get_prop raw ''jobs'') = ''object''
                   then (case object_entries (get_prop raw ''jobs'') of
                           Inl e \<Rightarrow> (Inl e, errors3)
                         | Inr entries \<Rightarrow> parseJobs entries empty_jobs errors3)
                   else (Inr empty_jobs, errors3)) of
               (Inl e, errors4) \<Rightarrow> (Inl e, errors4)
             | (Inr jobs, errors4) \<Rightarrow>
                 (Inr \<lparr>w_type = ''workflow'',
                       w_name = get_prop raw ''name'',
                       w_on = trigger,
                       w_jobs = jobs,
                       w_env = get_prop raw ''env'',
                       w_defaults = get_prop raw ''defaults'',
                       w_concurrency = get_prop raw ''concurrency'',
                       w_location = \<lparr>loc_line = 1, loc_column = 1, loc_file = filePath\<rparr>\<rparr>,
                  errors4)))"
    using assms
    by (auto simp add: buildWorkflowAST_def spec_on_check_def spec_jobs_check_def Let_def)
  show ?thesis
  proof (cases r)
    case (Inl e)
    with trigger unfold show ?thesis by simp
  next
    case (Inr t)
    show ?thesis
    proof (cases "truthy (get_prop raw ''jobs'') \<and> typeof (get_prop raw ''jobs'') = ''object''")
      case True
      show ?thesis
      proof (cases "object_entries (get_prop raw ''jobs'')")
        case (Inl e)
        with True trigger Inr unfold show ?thesis by simp
      next
        case entries: (Inr entries)
        obtain rj errs4 where jobs: "parseJobs entries empty_jobs ?errors2 = (rj, errs4)"
          by (cases "parseJobs entries empty_jobs ?errors2")
        with parseJobs_appends[of entries empty_jobs ?errors2] obtain rest where
          "errs4 = ?errors2 @ rest" by auto
        with True trigger Inr entries jobs unfold show ?thesis
          by (cases rj) simp_all
      qed
    next
      case False
      with trigger Inr unfold show ?thesis by auto
    qed
  qed
qed

lemma trigger_event_entry:
  assumes "map_of kvs k = Some v"
  shows "trigger_event (JObj kvs) k (b, t, p)
         = ((if specifies ''branches'' v then Some (as_array (get_prop v ''branches'')) else b),
            (if specifies ''tags'' v then Some (as_array (get_prop v ''tags'')) else t),
            (if specifies ''paths'' v then Some (as_array (get_prop v ''paths'')) else p))"
  using assms by (simp add: trigger_event_def specifies_def)

lemma last_filter_fold:
  "fold (\<lambda>(k, v) d. if specifies field v then Some (as_array (get_prop v field)) else d) xs d
   = (case filter (\<lambda>(k, v). specifies field v) xs of
        [] \<Rightarrow> d
      | y # ys \<Rightarrow> Some (as_array (get_prop (snd (last (y # ys))) field)))"
proof (induction xs arbitrary: d)
  case Nil
  then show ?case by simp
next
  case (Cons x xs)
  obtain k v where x: "x = (k, v)" by (cases x)
  show ?case
    by (simp add: x Cons.IH split: list.splits)
qed

lemma trigger_event_fold:
  assumes "\<forall>(k, v)\<in>set xs. map_of kvs k = Some v"
  shows "fold (trigger_event (JObj kvs)) (map fst xs) (b, t, p)
         = (fold (\<lambda>(k, v) d. if specifies ''branches'' v
                               then Some (as_array (get_prop v ''branches'')) else d) xs b,
            fold (\<lambda>(k, v) d. if specifies ''tags'' v
                               then Some (as_array (get_prop v ''tags'')) else d) xs t,
            fold (\<lambda>(k, v) d. if specifies ''paths'' v
                               then Some (as_array (get_prop v ''paths'')) else d) xs p)"
  using assms
proof (induction xs arbitrary: b t p)
  case Nil
  then show ?case by simp
next
  case (Cons x xs)
  obtain k v where x: "x = (k, v)" by (cases x)
  with Cons.prems have kv: "map_of kvs k = Some v" by simp
  from Cons.prems have rest: "\<forall>(k, v)\<in>set xs. map_of kvs k = Some v" by simp
  show ?case
    by (simp add: x trigger_event_entry[OF kv] Cons.IH[OF rest])
qed

section \<open>Documents without null: the diagnostics in order\<close>

text \<open>
  \<open>parse\<close> itself always returns a result.  On a decoded mapping in which the \<open>on\<close> value is
  not \<open>null\<close>, no job entry is \<open>null\<close> and no element of a \<open>steps\<close> sequence is \<open>null\<close>, it
  returns a workflow AST and exactly the diagnostics of \<open>spec_diagnostics\<close>, in that order.
\<close>

lemma parse_returns_result:
  assumes "load yamlContent = Inr v"
  shows "\<exists>result. parse load yamlContent filePath = Inr result
           \<and> (res_ast result = None \<longrightarrow> (\<exists>m. res_errors result = [err m]))"
  using assms
  by (auto simp add: parse_def parse_try_def split: sum.splits prod.splits)

lemma parse_diagnostics_order:
  assumes "load yamlContent = Inr (JObj kvs)" and "null_free (JObj kvs)"
  shows "\<exists>a. parse load yamlContent filePath
              = Inr \<lparr>res_ast = Some a, res_errors = spec_diagnostics (JObj kvs)\<rparr>"
proof -
  have "\<not> nullish (JObj kvs)" by (simp add: nullish_def)
  from buildWorkflowAST_Inr[OF this assms(2), of filePath "[]"] obtain a where
    "buildWorkflowAST (JObj kvs) filePath [] = (Inr a, spec_diagnostics (JObj kvs))"
    by auto
  with assms(1) show ?thesis
    by (simp add: parse_def parse_try_def)
qed

lemma parse_diagnostics_order_example:
  "decodes_to (JObj many_findings_kvs) many_findings_yaml = Inr (JObj many_findings_kvs)
   \<and> null_free (JObj many_findings_kvs)
   \<and> (\<exists>a. parse (decodes_to (JObj many_findings_kvs)) many_findings_yaml None
            = Inr \<lparr>res_ast = Some a, res_errors = spec_diagnostics (JObj many_findings_kvs)\<rparr>)
   \<and> spec_diagnostics (JObj many_findings_kvs)
     = [err ''Missing required field 'on' (trigger configuration)'',
        err (''Job 'build': missing required field 'runs-on'' @ [CHR 0x27]),
        err (''Job 'build', step 0: must have either 'uses' or 'run'' @ [CHR 0x27]),
        err (''Job 'build', step 2: must have either 'uses' or 'run'' @ [CHR 0x27]),
        err ''Job 'test': 'steps' must be an array'',
        err (''Job 'deploy': missing required field 'runs-on'' @ [CHR 0x27])]"
proof -
  have nf: "null_free (JObj many_findings_kvs)"
    by (simp add: many_findings_kvs_def null_free_def job_entries_def job_null_free_def
        steps_null_free_def nullish_def)
  have sd: "spec_diagnostics (JObj many_findings_kvs)
     = [err ''Missing required field 'on' (trigger configuration)'',
        err (''Job 'build': missing required field 'runs-on'' @ [CHR 0x27]),
        err (''Job 'build', step 0: must have either 'uses' or 'run'' @ [CHR 0x27]),
        err (''Job 'build', step 2: must have either 'uses' or 'run'' @ [CHR 0x27]),
        err ''Job 'test': 'steps' must be an array'',
        err (''Job 'deploy': missing required field 'runs-on'' @ [CHR 0x27])]"
    by (simp add: many_findings_kvs_def spec_diagnostics_def spec_on_check_def
        spec_jobs_check_def job_entries_def spec_job_checks_def spec_step_check_def
        message_defs numeral_2_eq_2)
  have ld: "decodes_to (JObj many_findings_kvs) many_findings_yaml = Inr (JObj many_findings_kvs)"
    by (simp add: decodes_to_def)
  from parse_diagnostics_order
         [of "decodes_to (JObj many_findings_kvs)" "many_findings_yaml" many_findings_kvs None, OF ld nf]
       nf sd ld
  show ?thesis by simp
qed

section \<open>When the builder raises\<close>

text \<open>
  The builder raises exactly on the documents that are not \<open>null_free\<close>, and \<open>parse\<close> then
  returns a null AST with the one diagnostic made from the exception.
\<close>

lemma parseSteps_throws:
  "\<exists>s\<in>set ss. nullish s \<Longrightarrow> \<exists>e errs'. parseSteps ss jobId i acc errs = (Inl e, errs')"
proof (induction ss arbitrary: i acc errs)
  case Nil
  then show ?case by simp
next
  case (Cons s ss)
  show ?case
  proof (cases "nullish s")
    case True
    then show ?thesis by (simp add: parseStep_Inl)
  next
    case False
    then obtain st where st: "parseStep s jobId i errs = (Inr st, errs @ spec_step_check jobId i s)"
      using parseStep_Inr by blast
    from False Cons.prems have "\<exists>s\<in>set ss. nullish s" by simp
    from Cons.IH[OF this, of "Suc i" "acc @ [st]" "errs @ spec_step_check jobId i s"] st
    show ?thesis by simp
  qed
qed

lemma parseJob_throws:
  assumes "\<not> job_null_free (jobId, jobConfig)"
  shows "\<exists>e errs'. parseJob jobId jobConfig errs = (Inl e, errs')"
proof (cases "nullish jobConfig")
  case True
  then show ?thesis by (simp add: parseJob_nullish)
next
  case False
  with assms have arr: "isArray (get_prop jobConfig ''steps'')"
    and "\<exists>s\<in>set (elems (get_prop jobConfig ''steps'')). nullish s"
    by (auto simp add: job_null_free_def steps_null_free_def)
  from parseSteps_throws[OF this(2)] obtain e errs' where
    "parseSteps (elems (get_prop jobConfig ''steps'')) jobId 0 []
       (if \<not> truthy (get_prop jobConfig ''runs-on'')
        then errs @ [err (missing_runs_on_msg jobId)] else errs) = (Inl e, errs')"
    by blast
  with False arr show ?thesis
    by (simp add: parseJob_def Let_def)
qed

lemma parseJobs_throws:
  "\<exists>entry\<in>set entries. \<not> job_null_free entry
   \<Longrightarrow> \<exists>e errs'. parseJobs entries jobs errs = (Inl e, errs')"
proof (induction entries arbitrary: jobs errs)
  case Nil
  then show ?case by simp
next
  case (Cons entry entries)
  obtain jobId jobConfig where entry: "entry = (jobId, jobConfig)" by (cases entry)
  show ?case
  proof (cases "job_null_free entry")
    case True
    with entry have "\<not> nullish jobConfig" "steps_null_free jobConfig"
      by (simp_all add: job_null_free_def)
    then obtain job where
      job: "parseJob jobId jobConfig errs = (Inr job, errs @ spec_job_checks (jobId, jobConfig))"
      using parseJob_Inr by blast
    from True Cons.prems have "\<exists>entry\<in>set entries. \<not> job_null_free entry" by simp
    from Cons.IH[OF this, of "set_job jobId job jobs" "errs @ spec_job_checks (jobId, jobConfig)"]
      job entry
    show ?thesis by simp
  next
    case False
    with entry obtain e errs' where "parseJob jobId jobConfig errs = (Inl e, errs')"
      using parseJob_throws by blast
    with entry show ?thesis by simp
  qed
qed

lemma buildWorkflowAST_throws:
  assumes "\<not> nullish raw" and "\<not> null_free raw"
  shows "\<exists>e errs'. buildWorkflowAST raw filePath errs = (Inl e, errs')"
proof (cases "get_prop raw ''on'' = JNull")
  case True
  with assms(1) show ?thesis
    by (auto simp add: buildWorkflowAST_def parseTrigger_null Let_def)
next
  case False
  let ?errors2 = "errs @ spec_on_check raw @ spec_jobs_check raw"
  from False obtain trigger where
    trigger: "parseTrigger (get_prop raw ''on'') ?errors2 = (Inr trigger, ?errors2)"
    using parseTrigger_Inr by blast
  from False assms(2) have bad: "\<exists>entry\<in>set (job_entries raw). \<not> job_null_free entry"
    by (simp add: null_free_def)
  have jobs: "truthy (get_prop raw ''jobs'') \<and> typeof (get_prop raw ''jobs'') = ''object''"
  proof (rule ccontr)
    assume "\<not> (truthy (get_prop raw ''jobs'') \<and> typeof (get_prop raw ''jobs'') = ''object'')"
    then have "job_entries raw = []" by (auto simp add: job_entries_def)
    with bad show False by simp
  qed
  then have "\<not> nullish (get_prop raw ''jobs'')" 
    by (auto simp: nullish_def)
  then obtain entries where entries: "object_entries (get_prop raw ''jobs'') = Inr entries"
    using object_entries_Inr by blast
  with jobs have je: "job_entries raw = entries" by (simp add: job_entries_def)
  with bad have "\<exists>entry\<in>set entries. \<not> job_null_free entry" by simp
  from parseJobs_throws[OF this, of empty_jobs ?errors2]
  obtain e errs' where "parseJobs entries empty_jobs ?errors2 = (Inl e, errs')"
    by blast
  with jobs entries trigger assms(1) show ?thesis
    by (auto simp add: buildWorkflowAST_def spec_on_check_def spec_jobs_check_def Let_def)
qed

lemma parse_null_ast_iff:
  assumes "load yamlContent = Inr (JObj kvs)"
  shows "(\<exists>m. parse load yamlContent filePath = Inr \<lparr>res_ast = None, res_errors = [err m]\<rparr>)
         = (\<not> null_free (JObj kvs))"
proof (cases "null_free (JObj kvs)")
  case True
  have "\<not> nullish (JObj kvs)" by (simp add: nullish_def)
  from buildWorkflowAST_Inr[OF this True, of filePath "[]"] assms True show ?thesis
    by (auto simp add: parse_def parse_try_def)
next
  case False
  have "\<not> nullish (JObj kvs)" by (simp add: nullish_def)
  from buildWorkflowAST_throws[OF this False, of filePath "[]"] assms False show ?thesis
    by (auto simp add: parse_def parse_try_def)
qed

section \<open>The permissive branch of parseTrigger and the jobs check\<close>

text \<open>
  An \<open>on\<close> value that is absent, a number or a boolean falls through the three tests of
  \<open>parseTrigger\<close> and gives the empty Trigger.  A \<open>jobs\<close> value that is absent, \<open>null\<close> or a
  scalar gets the diagnostic of the jobs check and an empty \<open>jobs\<close> mapping; the values
  that pass the check are exactly the sequences and the mappings.
\<close>

lemma parseTrigger_permissive:
  assumes "onConfig = JUndefined \<or> (\<exists>n. onConfig = JNum n) \<or> (\<exists>b. onConfig = JBool b)"
  shows "parseTrigger onConfig errs
         = (Inr \<lparr>t_type = ''trigger'', t_events = [],
                  t_branches = None, t_tags = None, t_paths = None\<rparr>, errs)"
  using assms by (auto simp add: parseTrigger_def)

lemma buildWorkflowAST_jobs_not_object:
  assumes "\<not> nullish raw" and "get_prop raw ''on'' \<noteq> JNull"
    and "\<not> truthy (get_prop raw ''jobs'') \<or> typeof (get_prop raw ''jobs'') \<noteq> ''object''"
  shows "\<exists>a. buildWorkflowAST raw filePath errs
              = (Inr a, errs @ spec_on_check raw @ [err invalid_jobs_msg])
             \<and> w_jobs a = \<lparr>jobs_own = [], jobs_proto = None\<rparr>"
proof -
  let ?errors2 = "errs @ spec_on_check raw @ [err invalid_jobs_msg]"
  from assms(2) obtain trigger where
    "parseTrigger (get_prop raw ''on'') ?errors2 = (Inr trigger, ?errors2)"
    using parseTrigger_Inr by blast
  with assms(1,3) show ?thesis
    by (auto simp add: buildWorkflowAST_def spec_on_check_def empty_jobs_def Let_def)
qed

lemma jobs_not_object_cases:
  "(\<not> truthy v \<or> typeof v \<noteq> ''object'') = (\<forall>xs kvs. v \<noteq> JArr xs \<and> v \<noteq> JObj kvs)"
  by (cases v) auto

section \<open>The claims\<close>

subsection \<open>C1: top-level values that are not objects\<close>

text \<open>
  C1, as amended.  For every decoded input that is a scalar (string, number, boolean),
  \<open>null\<close> or \<open>undefined\<close> at the top level, \<open>parse\<close> returns a null AST together with
  exactly one error-severity diagnostic, whose message is \<open>Invalid YAML: expected object\<close>;
  the builder is not called.
\<close>

theorem parse_scalar_or_null:
  assumes "load yamlContent = Inr v" and "scalar_or_null v"
  shows "parse load yamlContent filePath
         = Inr \<lparr>res_ast = None,
                res_errors = [\<lparr>message = ''Invalid YAML: expected object'',
                               severity = SevError\<rparr>]\<rparr>"
  using assms by (cases v) (simp_all add: parse_def parse_try_def err_def invalid_yaml_msg_def)

theorem parse_scalar_or_null_witness:
  "decodes_to (JNum (Finite 42)) ''42'' = Inr (JNum (Finite 42))
   \<and> scalar_or_null (JNum (Finite 42))
   \<and> parse (decodes_to (JNum (Finite 42))) ''42'' None
       = Inr \<lparr>res_ast = None,
              res_errors = [\<lparr>message = ''Invalid YAML: expected object'',
                             severity = SevError\<rparr>]\<rparr>"
  using parse_scalar_or_null [of "decodes_to (JNum (Finite 42))" "''42''" "JNum (Finite 42)" None]
  by (simp add: decodes_to_def)

text \<open>
  The claim as written fails twice.  On the scalar \<open>hello\<close> the diagnostic does not carry the
  message \<open>Invalid input: expected object\<close>.  On the empty sequence \<open>[]\<close> the guard
  \<open>!rawYaml || typeof rawYaml !== 'object'\<close> lets the value through (\<open>typeof [] === 'object'\<close>),
  the builder runs and a workflow AST comes back with the two top-level diagnostics.
\<close>

theorem parse_invalid_input_counterexample:
  "parse (decodes_to (JStr ''hello'')) ''hello'' None
     \<noteq> Inr \<lparr>res_ast = None,
             res_errors = [\<lparr>message = ''Invalid input: expected object'',
                            severity = SevError\<rparr>]\<rparr>
   \<and> parse (decodes_to (JArr [])) ''[]'' None
     = Inr \<lparr>res_ast =
              Some \<lparr>w_type = ''workflow'', w_name = JUndefined,
                     w_on = \<lparr>t_type = ''trigger'', t_events = [], t_branches = None,
                             t_tags = None, t_paths = None\<rparr>,
                     w_jobs = \<lparr>jobs_own = [], jobs_proto = None\<rparr>,
                     w_env = JUndefined, w_defaults = JUndefined,
                     w_concurrency = JUndefined,
                     w_location = \<lparr>loc_line = 1, loc_column = 1, loc_file = None\<rparr>\<rparr>,
            res_errors =
              [\<lparr>message = ''Missing required field 'on' (trigger configuration)'',
                 severity = SevError\<rparr>,
               \<lparr>message = ''Missing or invalid 'jobs' field'', severity = SevError\<rparr>]\<rparr>"
  by (simp add: parser_defs message_defs)

subsection \<open>C2: null inside the document\<close>

text \<open>
  C2.  The claim: for every input the decoder decodes, also with \<open>null\<close> inside it (a
  \<open>null\<close> \<open>on\<close> value, a \<open>null\<close> job entry, a \<open>null\<close> step element), the builder never
  throws, \<open>parse\<close> returns a pair, and every finding is reported through the returned
  diagnostic list.  On the three shapes the claim names the code does otherwise:
  \<open>parseTrigger\<close>, \<open>parseJob\<close> and \<open>parseStep\<close> raise a \<open>TypeError\<close> on \<open>null\<close>, with the
  findings recorded so far still in \<open>errors\<close>; \<open>parse\<close> catches the exception and returns a
  null AST whose only diagnostic is made from the exception.  For the job without
  \<open>runs-on\<close> whose \<open>steps\<close> holds a \<open>null\<close>, the recorded finding about \<open>runs-on\<close> is not in
  the result.
\<close>

theorem builder_throws_on_null:
  "parseTrigger JNull [err missing_on_msg]
     = (Inl (TypeError ''Cannot convert undefined or null to object''), [err missing_on_msg])
   \<and> parseJob ''test'' JNull [err missing_on_msg]
     = (Inl (TypeError (''Cannot read properties of null (reading 'runs-on'' @ [CHR 0x27] @ '')'')),
        [err missing_on_msg])
   \<and> parseStep JNull ''test'' 0 [err (missing_runs_on_msg ''test'')]
     = (Inl (TypeError (''Cannot read properties of null (reading 'uses'' @ [CHR 0x27] @ '')'')),
        [err (missing_runs_on_msg ''test'')])
   \<and> parse (decodes_to null_step_doc) null_step_yaml None
     = Inr \<lparr>res_ast = None,
            res_errors =
              [\<lparr>message = ''YAML parse error: Cannot read properties of null (reading 'uses''
                           @ [CHR 0x27] @ '')'',
                 severity = SevError\<rparr>]\<rparr>"
  by (simp add: null_step_doc_def parser_defs message_defs)

subsection \<open>C3: the strict entry point\<close>

text \<open>
  C3.  \<open>parseWorkflow\<close> applies \<open>parseWorkflow_result\<close> to what \<open>parse\<close> returned.  When the
  AST is null it throws, and the message carries all diagnostic messages joined by
  newlines.  When the AST is not null and at least one diagnostic has error severity it
  throws, and the message carries the join of the error-severity messages only.  Otherwise
  (the diagnostics, if any, are all warnings) it returns the AST.
\<close>

theorem parseWorkflow_failure_modes:
  "(parse load yamlContent filePath = Inr result
      \<longrightarrow> parseWorkflow load yamlContent filePath = parseWorkflow_result result)
   \<and> (res_ast result = None
      \<longrightarrow> parseWorkflow_result result
          = Inl (Error (''Failed to parse workflow:'' @ [CHR 0x0A]
                        @ join_lines (map message (res_errors result)))))
   \<and> (\<forall>a. res_ast result = Some a
      \<longrightarrow> ((\<exists>e\<in>set (res_errors result). severity e = SevError)
            \<longrightarrow> parseWorkflow_result result
                = Inl (Error (''Workflow has critical errors:'' @ [CHR 0x0A]
                              @ join_lines (map message
                                  (filter (\<lambda>e. severity e = SevError) (res_errors result))))))
          \<and> ((\<forall>e\<in>set (res_errors result). severity e = SevWarning)
            \<longrightarrow> parseWorkflow_result result = Inr a))"
proof -
  have all: "res_ast result = None \<Longrightarrow> parseWorkflow_result result
          = Inl (Error (''Failed to parse workflow:'' @ [CHR 0x0A]
                        @ join_lines (map message (res_errors result))))"
    by (simp add: parseWorkflow_result_def)
  have crit: "parseWorkflow_result result
                = Inl (Error (''Workflow has critical errors:'' @ [CHR 0x0A]
                              @ join_lines (map message
                                  (filter (\<lambda>e. severity e = SevError) (res_errors result)))))"
    if "res_ast result = Some a" "\<exists>e\<in>set (res_errors result). severity e = SevError" for a
  proof -
    from that(2) have "filter (\<lambda>e. severity e = SevError) (res_errors result) \<noteq> []"
      by (simp add: filter_empty_conv)
    moreover from that(2) have "res_errors result \<noteq> []" by auto
    ultimately show ?thesis using that(1) by (simp add: parseWorkflow_result_def)
  qed
  have ok: "parseWorkflow_result result = Inr a"
    if "res_ast result = Some a" "\<forall>e\<in>set (res_errors result). severity e = SevWarning" for a
  proof -
    from that(2) have "filter (\<lambda>e. severity e = SevError) (res_errors result) = []"
      by (auto simp add: filter_empty_conv)
    with that(1) show ?thesis by (simp add: parseWorkflow_result_def)
  qed
  have call: "parse load yamlContent filePath = Inr result
      \<Longrightarrow> parseWorkflow load yamlContent filePath = parseWorkflow_result result"
    by (simp add: parseWorkflow_def)
  from all crit ok call show ?thesis by blast
qed

theorem parseWorkflow_failure_modes_witness:
  "parse (decodes_to (JBool True)) ''true'' None
     = Inr \<lparr>res_ast = None, res_errors = [err ''Invalid YAML: expected object'']\<rparr>
   \<and> parseWorkflow (decodes_to (JBool True)) ''true'' None
     = Inl (Error (''Failed to parse workflow:'' @ [CHR 0x0A] @ ''Invalid YAML: expected object''))
   \<and> parseWorkflow_result \<lparr>res_ast = None, res_errors = [err ''first'', warning ''second'']\<rparr>
     = Inl (Error (''Failed to parse workflow:'' @ [CHR 0x0A] @ ''first'' @ [CHR 0x0A] @ ''second''))
   \<and> parseWorkflow_result
        \<lparr>res_ast = Some empty_workflow,
         res_errors = [warning ''w1'', err ''e1'', warning ''w2'', err ''e2'']\<rparr>
     = Inl (Error (''Workflow has critical errors:'' @ [CHR 0x0A] @ ''e1'' @ [CHR 0x0A] @ ''e2''))
   \<and> parseWorkflow_result \<lparr>res_ast = Some empty_workflow, res_errors = [warning ''w1'']\<rparr>
     = Inr empty_workflow"
  using
    parseWorkflow_failure_modes
      [of "decodes_to (JBool True)" "''true''" None
          "\<lparr>res_ast = None, res_errors = [err ''Invalid YAML: expected object'']\<rparr>"]
    parseWorkflow_failure_modes
      [of "decodes_to (JBool True)" "''true''" None
          "\<lparr>res_ast = None, res_errors = [err ''first'', warning ''second'']\<rparr>"]
    parseWorkflow_failure_modes
      [of "decodes_to (JBool True)" "''true''" None
          "\<lparr>res_ast = Some empty_workflow,
            res_errors = [warning ''w1'', err ''e1'', warning ''w2'', err ''e2'']\<rparr>"]
    parseWorkflow_failure_modes
      [of "decodes_to (JBool True)" "''true''" None
          "\<lparr>res_ast = Some empty_workflow, res_errors = [warning ''w1'']\<rparr>"]
  by (simp add: parse_def parse_try_def decodes_to_def invalid_yaml_msg_def err_def warning_def)

subsection \<open>C4: valid minimal documents\<close>

text \<open>
  C4.  For every valid minimal document (a non-empty string as \<open>on\<close>, one job with a truthy
  \<open>runs-on\<close> value and a non-empty \<open>steps\<close> sequence whose steps have a truthy \<open>run\<close>),
  \<open>parse\<close> returns a non-null AST and an empty diagnostic list; the event list is the
  trigger string alone, the job built has the given identifier and runner, and its steps
  carry the given \<open>run\<close> values in order.  The job is the only entry of \<open>jobs\<close>, except
  when its identifier is \<open>__proto__\<close>: then \<open>jobs\<close> has no entry and the job is its
  prototype.  The witness is the document of the specification's example: events
  \<open>["push"]\<close>, job \<open>test\<close> with runner \<open>ubuntu-latest\<close>, one step with run \<open>echo test\<close>, zero
  diagnostics; and the same document with the job named \<open>__proto__\<close>.
\<close>

theorem parse_valid_minimal:
  assumes load: "load yamlContent = Inr doc"
    and on: "get_prop doc ''on'' = JStr e" "e \<noteq> []"
    and jobs: "get_prop doc ''jobs'' = JObj [(jobId, job)]"
    and runner: "truthy (get_prop job ''runs-on'')"
    and steps: "get_prop job ''steps'' = JArr steps" "steps \<noteq> []"
    and run: "\<forall>s\<in>set steps. truthy (get_prop s ''run'')"
  shows "\<exists>a j. parse load yamlContent filePath = Inr \<lparr>res_ast = Some a, res_errors = []\<rparr>
           \<and> t_events (w_on a) = [JStr e]
           \<and> w_jobs a = (if jobId = ''__proto__''
                         then \<lparr>jobs_own = [], jobs_proto = Some j\<rparr>
                         else \<lparr>jobs_own = [(jobId, j)], jobs_proto = None\<rparr>)
           \<and> j_id j = jobId
           \<and> j_runsOn j = get_prop job ''runs-on''
           \<and> map s_run (j_steps j) = map (\<lambda>s. get_prop s ''run'') steps"
proof -
  from run have "\<forall>s\<in>set steps. \<not> nullish s"
    using truthy_prop_not_nullish by blast
  from parseSteps_Inr[OF this, of jobId 0 "[]" "[]"] spec_steps_checks_run[OF run, of jobId 0]
  obtain sts where sts: "parseSteps steps jobId 0 [] [] = (Inr sts, [])"
    by auto
  from parseSteps_run[OF sts] have sts_run: "map s_run sts = map (\<lambda>s. get_prop s ''run'') steps"
    by simp
  from runner have "\<not> nullish job" by (rule truthy_prop_not_nullish)
  with runner steps(1) sts obtain j where
    j: "parseJob jobId job [] = (Inr j, [])" "j_runsOn j = get_prop job ''runs-on''"
       "j_steps j = sts" "j_id j = jobId"
    by (simp add: parseJob_def)
  from on have doc: "\<not> nullish doc" "truthy doc" "typeof doc = ''object''"
    by (cases doc; simp add: nullish_def)+
  from on have trigger: "parseTrigger (get_prop doc ''on'') []
      = (Inr \<lparr>t_type = ''trigger'', t_events = [JStr e],
               t_branches = None, t_tags = None, t_paths = None\<rparr>, [])"
    by (simp add: parseTrigger_def)
  from doc on jobs j(1) trigger obtain a where
    a: "buildWorkflowAST doc filePath [] = (Inr a, [])" "t_events (w_on a) = [JStr e]"
       "w_jobs a = set_job jobId j empty_jobs"
    by (simp add: buildWorkflowAST_def)
  from a(3) have jobs_a: "w_jobs a = (if jobId = ''__proto__''
                         then \<lparr>jobs_own = [], jobs_proto = Some j\<rparr>
                         else \<lparr>jobs_own = [(jobId, j)], jobs_proto = None\<rparr>)"
    by (simp add: set_job_def empty_jobs_def)
  from load doc a(1) have "parse load yamlContent filePath = Inr \<lparr>res_ast = Some a, res_errors = []\<rparr>"
    by (simp add: parse_def parse_try_def)
  with a(2) jobs_a j(2,3,4) sts_run show ?thesis by blast
qed

theorem parse_valid_minimal_witness:
  "decodes_to minimal_doc minimal_yaml = Inr minimal_doc
   \<and> get_prop minimal_doc ''on'' = JStr ''push'' \<and> ''push'' \<noteq> []
   \<and> get_prop minimal_doc ''jobs'' = JObj [(''test'', minimal_job)]
   \<and> truthy (get_prop minimal_job ''runs-on'')
   \<and> get_prop minimal_job ''steps'' = JArr [JObj [(''run'', JStr ''echo test'')]]
   \<and> [JObj [(''run'', JStr ''echo test'')]] \<noteq> []
   \<and> list_all (\<lambda>s. truthy (get_prop s ''run'')) [JObj [(''run'', JStr ''echo test'')]]
   \<and> parse (decodes_to minimal_doc) minimal_yaml None
     = Inr \<lparr>res_ast =
              Some \<lparr>w_type = ''workflow'', w_name = JUndefined,
                     w_on = \<lparr>t_type = ''trigger'', t_events = [JStr ''push''],
                             t_branches = None, t_tags = None, t_paths = None\<rparr>,
                     w_jobs =
                       \<lparr>jobs_own =
                          [(''test'',
                            \<lparr>j_type = ''job'', j_id = ''test'', j_name = JUndefined,
                             j_runsOn = JStr ''ubuntu-latest'',
                             j_steps =
                               [\<lparr>s_type = ''step'', s_id = JUndefined, s_name = JUndefined,
                                 s_uses = JUndefined, s_run = JStr ''echo test'',
                                 s_with = JUndefined, s_env = JUndefined, s_if = JUndefined,
                                 s_continueOnError = JUndefined\<rparr>],
                             j_needs = None, j_if = JUndefined, j_strategy = None,
                             j_env = JUndefined, j_permissions = JUndefined,
                             j_timeout = JUndefined\<rparr>)],
                        jobs_proto = None\<rparr>,
                     w_env = JUndefined, w_defaults = JUndefined,
                     w_concurrency = JUndefined,
                     w_location = \<lparr>loc_line = 1, loc_column = 1, loc_file = None\<rparr>\<rparr>,
            res_errors = []\<rparr>
   \<and> get_prop proto_job_doc ''jobs'' = JObj [(''__proto__'', minimal_job)]
   \<and> parse (decodes_to proto_job_doc) proto_job_yaml None
     = Inr \<lparr>res_ast =
              Some \<lparr>w_type = ''workflow'', w_name = JUndefined,
                     w_on = \<lparr>t_type = ''trigger'', t_events = [JStr ''push''],
                             t_branches = None, t_tags = None, t_paths = None\<rparr>,
                     w_jobs =
                       \<lparr>jobs_own = [],
                        jobs_proto =
                          Some \<lparr>j_type = ''job'', j_id = ''__proto__'', j_name = JUndefined,
                                j_runsOn = JStr ''ubuntu-latest'',
                                j_steps =
                                  [\<lparr>s_type = ''step'', s_id = JUndefined,
                                    s_name = JUndefined, s_uses = JUndefined,
                                    s_run = JStr ''echo test'', s_with = JUndefined,
                                    s_env = JUndefined, s_if = JUndefined,
                                    s_continueOnError = JUndefined\<rparr>],
                                j_needs = None, j_if = JUndefined, j_strategy = None,
                                j_env = JUndefined, j_permissions = JUndefined,
                                j_timeout = JUndefined\<rparr>\<rparr>,
                     w_env = JUndefined, w_defaults = JUndefined,
                     w_concurrency = JUndefined,
                     w_location = \<lparr>loc_line = 1, loc_column = 1, loc_file = None\<rparr>\<rparr>,
            res_errors = []\<rparr>"
  using
    parse_valid_minimal
      [of "decodes_to minimal_doc" minimal_yaml minimal_doc "''push''" "''test''" minimal_job
          "[JObj [(''run'', JStr ''echo test'')]]" None]
    parse_valid_minimal
      [of "decodes_to proto_job_doc" proto_job_yaml proto_job_doc "''push''" "''__proto__''"
          minimal_job "[JObj [(''run'', JStr ''echo test'')]]" None]
  by (simp add: minimal_doc_def proto_job_doc_def minimal_job_def parser_defs message_defs)

subsection \<open>C5: the order of the diagnostics\<close>

text \<open>
  C5.  The claim: for every decoded mapping the diagnostics \<open>parse\<close> returns are, in this
  order and with none dropped, the \<open>on\<close> check, the \<open>jobs\<close> check, then the jobs in
  iteration order, each with its \<open>runs-on\<close> diagnostic before its step diagnostics in index
  order: the list \<open>spec_diagnostics\<close>.  On a job entry without a value the code does
  otherwise: the builder records the missing \<open>on\<close>, then \<open>parseJob\<close> reads \<open>runs-on\<close> from
  \<open>null\<close> and raises, and \<open>parse\<close> answers the exception with a fresh list that holds the
  exception's message only.  The diagnostic already recorded is dropped, and the missing
  \<open>runs-on\<close> is never reported.
\<close>

theorem parse_null_job_drops_diagnostics:
  "parse (decodes_to null_job_doc) null_job_yaml None
     = Inr \<lparr>res_ast = None,
            res_errors =
              [err (''YAML parse error: Cannot read properties of null (reading 'runs-on''
                    @ [CHR 0x27] @ '')'')]\<rparr>
   \<and> spec_diagnostics null_job_doc
     = [err ''Missing required field 'on' (trigger configuration)'',
        err (''Job 'test': missing required field 'runs-on'' @ [CHR 0x27])]
   \<and> parseJob ''test'' JNull [err ''Missing required field 'on' (trigger configuration)'']
     = (Inl (TypeError (''Cannot read properties of null (reading 'runs-on'' @ [CHR 0x27] @ '')'')),
        [err ''Missing required field 'on' (trigger configuration)''])"
  by (simp add: null_job_doc_def parser_defs message_defs spec_diagnostics_def spec_on_check_def
        spec_jobs_check_def job_entries_def spec_job_checks_def)

subsection \<open>C6: the three spellings of a trigger\<close>

text \<open>
  C6.  For any event name \<open>e\<close>, the \<open>on\<close> values \<open>e\<close> (a bare string), \<open>[e]\<close> (a one-element
  list) and \<open>{e: {}}\<close> (a mapping) all give the same Trigger, whose event list is exactly
  \<open>[e]\<close>, and push no diagnostic.
\<close>

theorem parseTrigger_spellings:
  "parseTrigger (JStr e) errs
     = (Inr \<lparr>t_type = ''trigger'', t_events = [JStr e],
              t_branches = None, t_tags = None, t_paths = None\<rparr>, errs)
   \<and> parseTrigger (JArr [JStr e]) errs
     = (Inr \<lparr>t_type = ''trigger'', t_events = [JStr e],
              t_branches = None, t_tags = None, t_paths = None\<rparr>, errs)
   \<and> parseTrigger (JObj [(e, JObj [])]) errs
     = (Inr \<lparr>t_type = ''trigger'', t_events = [JStr e],
              t_branches = None, t_tags = None, t_paths = None\<rparr>, errs)"
  by (simp add: parseTrigger_def trigger_event_def object_keys_def)

subsection \<open>C7: an \<open>on\<close> value that is no string, sequence or mapping\<close>

text \<open>
  C7.  The claim: a raw \<open>on\<close> value that is a number, \<open>null\<close> or a boolean gives a Trigger
  with an empty event list, no diagnostic, and the builder still returns the workflow.
  For \<open>null\<close> the code does otherwise: \<open>typeof null === 'object'\<close> selects the mapping
  branch, \<open>Object.keys(null)\<close> throws a \<open>TypeError\<close>, and \<open>parse\<close> returns a null AST with the
  single diagnostic made from the exception.
\<close>

theorem parse_null_on:
  "parseTrigger JNull []
     = (Inl (TypeError ''Cannot convert undefined or null to object''), [])
   \<and> parse (decodes_to null_on_doc) null_on_yaml None
     = Inr \<lparr>res_ast = None,
            res_errors =
              [\<lparr>message = ''YAML parse error: Cannot convert undefined or null to object'',
                 severity = SevError\<rparr>]\<rparr>"
  by (simp add: null_on_doc_def parser_defs message_defs)

subsection \<open>C8: filters of several events\<close>

text \<open>
  C8.  When the \<open>on\<close> value is a mapping (its keys are distinct), the Trigger's events are
  the keys in iteration order, and for each of \<open>branches\<close>, \<open>tags\<close> and \<open>paths\<close>
  independently the Trigger keeps the value of the last event in iteration order whose
  filter object specifies that field; an event that does not specify a field leaves the
  value collected so far in place.  No diagnostic is pushed.
\<close>

theorem parseTrigger_last_filter_wins:
  assumes "distinct (map fst kvs)"
  shows "parseTrigger (JObj kvs) errs
         = (Inr \<lparr>t_type = ''trigger'',
                  t_events = map (\<lambda>(event, eventConfig). JStr event) kvs,
                  t_branches = spec_last_filter ''branches'' kvs,
                  t_tags = spec_last_filter ''tags'' kvs,
                  t_paths = spec_last_filter ''paths'' kvs\<rparr>, errs)"
proof -
  from assms have "\<forall>(k, v)\<in>set kvs. map_of kvs k = Some v" by auto
  from trigger_event_fold[OF this, of None None None]
  have "fold (trigger_event (JObj kvs)) (map fst kvs) (None, None, None)
        = (spec_last_filter ''branches'' kvs, spec_last_filter ''tags'' kvs,
           spec_last_filter ''paths'' kvs)"
    by (simp add: last_filter_fold spec_last_filter_def)
  moreover have "map JStr (map fst kvs) = map (\<lambda>(event, eventConfig). JStr event) kvs"
    by (induction kvs) auto
  ultimately show ?thesis
    by (simp add: parseTrigger_def object_keys_def)
qed

theorem parseTrigger_last_filter_wins_witness:
  "distinct (map fst [(''push'', JObj [(''branches'', JArr [JStr ''main'']), (''tags'', JStr ''v*'')]),
                      (''pull_request'', JObj [(''branches'', JStr ''dev'')]),
                      (''workflow_dispatch'', JNull)])
   \<and> parseTrigger
        (JObj [(''push'', JObj [(''branches'', JArr [JStr ''main'']), (''tags'', JStr ''v*'')]),
               (''pull_request'', JObj [(''branches'', JStr ''dev'')]),
               (''workflow_dispatch'', JNull)]) []
     = (Inr \<lparr>t_type = ''trigger'',
              t_events = [JStr ''push'', JStr ''pull_request'', JStr ''workflow_dispatch''],
              t_branches = Some [JStr ''dev''],
              t_tags = Some [JStr ''v*''],
              t_paths = None\<rparr>, [])"
  using parseTrigger_last_filter_wins
    [of "[(''push'', JObj [(''branches'', JArr [JStr ''main'']), (''tags'', JStr ''v*'')]),
          (''pull_request'', JObj [(''branches'', JStr ''dev'')]),
          (''workflow_dispatch'', JNull)]" "[]"]
  by (simp add: spec_last_filter_def specifies_def as_array_def)

subsection \<open>C9: a \<open>jobs\<close> value that is not a mapping\<close>

text \<open>
  C9.  The claim: when \<open>jobs\<close> is missing or not a mapping (a scalar or a sequence), the
  builder emits the diagnostic \<open>Missing or invalid 'jobs' field\<close> and returns a workflow
  with no jobs.  For a sequence the code does otherwise: \<open>typeof raw.jobs !== 'object'\<close> is
  false for an array, no diagnostic is emitted, and the elements become jobs named by their
  index.
\<close>

theorem parse_jobs_sequence:
  "parse (decodes_to jobs_sequence_doc) jobs_sequence_yaml None
     = Inr \<lparr>res_ast =
              Some \<lparr>w_type = ''workflow'', w_name = JUndefined,
                     w_on = \<lparr>t_type = ''trigger'', t_events = [JStr ''push''],
                             t_branches = None, t_tags = None, t_paths = None\<rparr>,
                     w_jobs =
                       \<lparr>jobs_own =
                          [(''0'', \<lparr>j_type = ''job'', j_id = ''0'', j_name = JUndefined,
                                    j_runsOn = JStr ''ubuntu-latest'', j_steps = [],
                                    j_needs = None, j_if = JUndefined, j_strategy = None,
                                    j_env = JUndefined, j_permissions = JUndefined,
                                    j_timeout = JUndefined\<rparr>)],
                        jobs_proto = None\<rparr>,
                     w_env = JUndefined, w_defaults = JUndefined,
                     w_concurrency = JUndefined,
                     w_location = \<lparr>loc_line = 1, loc_column = 1, loc_file = None\<rparr>\<rparr>,
            res_errors = []\<rparr>"
  by (simp add: jobs_sequence_doc_def parser_defs message_defs)

subsection \<open>C10: an \<open>on\<close> key with a falsy value\<close>

text \<open>
  C10.  For every decoded mapping in which the \<open>on\<close> key is present with a falsy value
  (\<open>false\<close>, \<open>0\<close>, the empty string; also \<open>null\<close> and \<open>NaN\<close>), the first diagnostic the
  builder pushes is \<open>Missing required field 'on' (trigger configuration)\<close>, although the
  key exists; and when the builder completes, it is the first diagnostic \<open>parse\<close> returns.
\<close>

theorem falsy_on_still_missing:
  assumes "map_of kvs ''on'' = Some v" and "\<not> truthy v"
  shows "(\<exists>rest. snd (buildWorkflowAST (JObj kvs) filePath errs)
                 = errs @ \<lparr>message = ''Missing required field 'on' (trigger configuration)'',
                            severity = SevError\<rparr> # rest)
         \<and> (load yamlContent = Inr (JObj kvs) \<and> null_free (JObj kvs)
            \<longrightarrow> (\<exists>a rest. parse load yamlContent filePath
                   = Inr \<lparr>res_ast = Some a,
                          res_errors =
                            \<lparr>message = ''Missing required field 'on' (trigger configuration)'',
                             severity = SevError\<rparr> # rest\<rparr>))"
proof -
  have nn: "\<not> nullish (JObj kvs)" by (simp add: nullish_def)
  from assms have on: "spec_on_check (JObj kvs)
      = [\<lparr>message = ''Missing required field 'on' (trigger configuration)'', severity = SevError\<rparr>]"
    by (simp add: spec_on_check_def err_def missing_on_msg_def)
  from buildWorkflowAST_appends[OF nn, of filePath errs] on
  have first: "\<exists>rest. snd (buildWorkflowAST (JObj kvs) filePath errs)
                 = errs @ \<lparr>message = ''Missing required field 'on' (trigger configuration)'',
                            severity = SevError\<rparr> # rest"
    by auto
  have second: "\<exists>a rest. parse load yamlContent filePath
                   = Inr \<lparr>res_ast = Some a,
                          res_errors =
                            \<lparr>message = ''Missing required field 'on' (trigger configuration)'',
                             severity = SevError\<rparr> # rest\<rparr>"
    if "load yamlContent = Inr (JObj kvs)" "null_free (JObj kvs)"
  proof -
    from buildWorkflowAST_Inr[OF nn that(2), of filePath "[]"] obtain a where
      "buildWorkflowAST (JObj kvs) filePath [] = (Inr a, spec_diagnostics (JObj kvs))"
      by auto
    with that(1) on show ?thesis
      by (simp add: parse_def parse_try_def spec_diagnostics_def)
  qed
  from first second show ?thesis by blast
qed

theorem falsy_on_still_missing_witness:
  "(map_of (falsy_on_kvs (JBool False)) ''on'' = Some (JBool False) \<and> \<not> truthy (JBool False)
    \<and> decodes_to (JObj (falsy_on_kvs (JBool False))) (falsy_on_yaml ''false'')
        = Inr (JObj (falsy_on_kvs (JBool False)))
    \<and> null_free (JObj (falsy_on_kvs (JBool False)))
    \<and> parse (decodes_to (JObj (falsy_on_kvs (JBool False)))) (falsy_on_yaml ''false'') None
      = Inr \<lparr>res_ast = Some (falsy_on_ast []),
             res_errors = [err ''Missing required field 'on' (trigger configuration)'']\<rparr>)
   \<and> (map_of (falsy_on_kvs (JNum (Finite 0))) ''on'' = Some (JNum (Finite 0))
    \<and> \<not> truthy (JNum (Finite 0))
    \<and> parse (decodes_to (JObj (falsy_on_kvs (JNum (Finite 0))))) (falsy_on_yaml ''0'') None
      = Inr \<lparr>res_ast = Some (falsy_on_ast []),
             res_errors = [err ''Missing required field 'on' (trigger configuration)'']\<rparr>)
   \<and> (map_of (falsy_on_kvs (JStr '''')) ''on'' = Some (JStr '''') \<and> \<not> truthy (JStr '''')
    \<and> parse (decodes_to (JObj (falsy_on_kvs (JStr '''')))) (falsy_on_yaml [CHR 0x27, CHR 0x27]) None
      = Inr \<lparr>res_ast = Some (falsy_on_ast [JStr '''']),
             res_errors = [err ''Missing required field 'on' (trigger configuration)'']\<rparr>)"
  using
    falsy_on_still_missing
      [of "falsy_on_kvs (JBool False)" "JBool False" None "[]"
          "decodes_to (JObj (falsy_on_kvs (JBool False)))" "falsy_on_yaml ''false''"]
    falsy_on_still_missing
      [of "falsy_on_kvs (JNum (Finite 0))" "JNum (Finite 0)" None "[]"
          "decodes_to (JObj (falsy_on_kvs (JNum (Finite 0))))" "falsy_on_yaml ''0''"]
    falsy_on_still_missing
      [of "falsy_on_kvs (JStr '''')" "JStr ''''" None "[]"
          "decodes_to (JObj (falsy_on_kvs (JStr '''')))" "falsy_on_yaml [CHR 0x27, CHR 0x27]"]
  by (simp add: falsy_on_kvs_def falsy_on_ast_def parser_defs message_defs null_free_def
      job_entries_def job_null_free_def steps_null_free_def)

end
